theory Spec2Isabelle
  imports Main
begin

section \<open>Values of the program\<close>

text \<open>
  The program of \<^verbatim>\<open>map_pdb_cdb.py\<close> reads JSON objects from the OCI command line client and
  joins them. Every attribute it consumes (\<^verbatim>\<open>pdb-name\<close>, \<^verbatim>\<open>container-database-id\<close>,
  \<^verbatim>\<open>id\<close>, \<^verbatim>\<open>db-name\<close>, \<^verbatim>\<open>db-home-id\<close>, \<^verbatim>\<open>display-name\<close>, \<^verbatim>\<open>name\<close>) is a string in the
  data model, so a JSON object is a Python \<^verbatim>\<open>dict\<close> from attribute names to strings. It is
  kept as the list of its members, read through \<open>map_of\<close>, so that being empty is decidable.
  Python's \<^verbatim>\<open>None\<close>, which \<^verbatim>\<open>d.get(k)\<close> returns for a missing key, is \<open>None\<close> of the option
  type.
\<close>

type_synonym attrs = "(string \<times> string) list"

text \<open>\<^verbatim>\<open>d.get(k, default)\<close> and \<^verbatim>\<open>d.get(k)\<close> of a Python dict.\<close>

definition dict_get :: "('k \<rightharpoonup> 'v) \<Rightarrow> 'k \<Rightarrow> 'v \<Rightarrow> 'v" where
  "dict_get d k dflt = (case d k of None \<Rightarrow> dflt | Some v \<Rightarrow> v)"

text \<open>
  \<^verbatim>\<open>d.get(k, default)\<close> where \<^verbatim>\<open>k\<close> is itself the result of a \<^verbatim>\<open>get\<close> without default and so may
  be \<^verbatim>\<open>None\<close>. The keys of both lookup tables are identifiers (strings), so looking
  \<^verbatim>\<open>None\<close> up misses and yields the default.
\<close>

definition dict_get_opt :: "('k \<rightharpoonup> 'v) \<Rightarrow> 'k option \<Rightarrow> 'v \<Rightarrow> 'v" where
  "dict_get_opt d ko dflt = (case ko of None \<Rightarrow> dflt | Some k \<Rightarrow> dict_get d k dflt)"

text \<open>
  What \<^verbatim>\<open>run_oci_command\<close> returns: the \<^verbatim>\<open>data\<close> member of the envelope, an array of objects
  for a list operation and one object for a get operation; \<^verbatim>\<open>[]\<close> is \<open>PyList []\<close> and
  \<^verbatim>\<open>{}\<close> is \<open>PyDict []\<close>. The envelope of the client has no other shape of \<^verbatim>\<open>data\<close>, and
  the program validates none.
\<close>

datatype pyval = PyList "attrs list" | PyDict attrs

text \<open>Python's truth value of a list or a dict: false exactly when it is empty.\<close>

fun truthy :: "pyval \<Rightarrow> bool" where
  "truthy (PyList xs) = (xs \<noteq> [])"
| "truthy (PyDict d) = (d \<noteq> [])"

section \<open>Exceptions\<close>

text \<open>
  The exception classes the program names or can meet; all of them derive from
  \<^verbatim>\<open>Exception\<close>. An exception carries its message, which \<^verbatim>\<open>f"{e}"\<close> prints.
\<close>

datatype exc_class =
  CalledProcessError | JSONDecodeError | AttributeError | OSError | UnicodeDecodeError
  | OtherException

datatype py_exception = Exc exc_class string

fun exc_class_of :: "py_exception \<Rightarrow> exc_class" where
  "exc_class_of (Exc c m) = c"

fun exc_str :: "py_exception \<Rightarrow> string" where
  "exc_str (Exc c m) = m"

section \<open>The join\<close>

text \<open>One output row: the dict with the six fixed keys built by the comprehension.\<close>

record mapping_row =
  PDB_Name :: string
  CDB_Name :: string
  Oracle_Home :: string
  Compartment_Name :: string
  CDB_ID :: string
  Compartment_ID :: string

text \<open>The dict display inside the comprehension of \<^verbatim>\<open>extract_pdb_cdb_mapping\<close>, for one \<^verbatim>\<open>pdb\<close>.\<close>

definition pdb_row ::
  "(string \<rightharpoonup> (string \<rightharpoonup> string)) \<Rightarrow> (string \<rightharpoonup> string) \<Rightarrow> string \<Rightarrow> string \<Rightarrow> attrs
     \<Rightarrow> mapping_row" where
  "pdb_row cdb_mapping db_home_mapping compartment_id compartment_name pdb =
     \<lparr> PDB_Name = dict_get (map_of pdb) ''pdb-name'' ''Unknown PDB'',
       CDB_Name =
         dict_get
           (dict_get cdb_mapping
              (dict_get (map_of pdb) ''container-database-id'' ''Unknown CDB'') Map.empty)
           ''CDB_Name'' ''Unknown CDB'',
       Oracle_Home =
         dict_get_opt db_home_mapping
           ((dict_get_opt cdb_mapping (map_of pdb ''container-database-id'') Map.empty)
              ''DB_Home_ID'')
           ''Unknown Oracle Home'',
       Compartment_Name = compartment_name,
       CDB_ID = dict_get (map_of pdb) ''container-database-id'' ''Unknown CDB'',
       Compartment_ID = compartment_id \<rparr>"

text \<open>
  Iterating a value with \<^verbatim>\<open>for x in v\<close> and calling \<^verbatim>\<open>x.get(...)\<close> on each element: a list
  yields its objects; a dict yields its keys, which are strings and have no \<^verbatim>\<open>get\<close>, so a
  non-empty dict raises \<^verbatim>\<open>AttributeError\<close> at its first key.
\<close>

fun iter_dicts :: "pyval \<Rightarrow> py_exception + attrs list" where
  "iter_dicts (PyList xs) = Inr xs"
| "iter_dicts (PyDict d) =
     (if d = [] then Inr []
      else Inl (Exc AttributeError ''str object has no attribute get''))"

definition extract_pdb_cdb_mapping ::
  "pyval \<Rightarrow> (string \<rightharpoonup> (string \<rightharpoonup> string)) \<Rightarrow> (string \<rightharpoonup> string) \<Rightarrow> string \<Rightarrow> string
     \<Rightarrow> py_exception + mapping_row list" where
  "extract_pdb_cdb_mapping pdbs cdb_mapping db_home_mapping compartment_id compartment_name =
     (case iter_dicts pdbs of
        Inl e \<Rightarrow> Inl e
      | Inr ps \<Rightarrow>
          Inr (map (pdb_row cdb_mapping db_home_mapping compartment_id compartment_name) ps))"

section \<open>The outside world\<close>

text \<open>
  \<^verbatim>\<open>subprocess.run(command, capture_output=True, text=True)\<close> either returns a completed
  process (exit status and the decoded output streams) or raises: the executable cannot
  be started (\<^verbatim>\<open>OSError\<close>), or an output stream is not text in the locale's encoding
  (\<^verbatim>\<open>UnicodeDecodeError\<close>). Without \<^verbatim>\<open>check=True\<close> it never raises \<^verbatim>\<open>CalledProcessError\<close>, but
  the model does not rely on that.
\<close>

record completed_process =
  returncode :: int
  stdout :: string
  stderr :: string

text \<open>
  \<^verbatim>\<open>json.loads\<close> returns a document or raises. The program only asks the document for
  \<^verbatim>\<open>.get("data", [])\<close>, which a JSON object (a dict) has and any other document (a list, a
  string, a number, \<^verbatim>\<open>true\<close>, \<^verbatim>\<open>false\<close>, \<^verbatim>\<open>null\<close>) has not.
\<close>

datatype json_doc = JsonObject "string \<rightharpoonup> pyval" | JsonOther

text \<open>
  What the operating system does with the \<^verbatim>\<open>with open(output_file, "w", newline="")\<close>
  block: all of it succeeds, or some step raises and leaves the file as the fault says
  (\<open>None\<close>: no such file).
\<close>

datatype io_outcome = IoOk | IoError py_exception "string option"

text \<open>
  The external collaborators of one run: the command line client behind
  \<^verbatim>\<open>subprocess.run\<close>, the JSON parser and the file system.
\<close>

record env =
  subprocess_run :: "string list \<Rightarrow> py_exception + completed_process"
  json_loads :: "string \<Rightarrow> py_exception + json_doc"
  csv_io :: "string \<Rightarrow> io_outcome"

section \<open>Printing and raising\<close>

text \<open>
  A computation prints lines and then returns a value or raises an exception: the pair
  of the lines printed and the result, \<open>Inl\<close> being the exception that left the function.
\<close>

type_synonym 'a io = "string list \<times> (py_exception + 'a)"

definition return_io :: "'a \<Rightarrow> 'a io" where
  "return_io x = ([], Inr x)"

definition raise_io :: "py_exception \<Rightarrow> 'a io" where
  "raise_io e = ([], Inl e)"

definition print_io :: "string \<Rightarrow> unit io" where
  "print_io s = ([s], Inr ())"

definition bind_io :: "'a io \<Rightarrow> ('a \<Rightarrow> 'b io) \<Rightarrow> 'b io" where
  "bind_io m f =
     (case m of
        (out, Inl e) \<Rightarrow> (out, Inl e)
      | (out, Inr x) \<Rightarrow> (case f x of (out', r) \<Rightarrow> (out @ out', r)))"

section \<open>The resource fetchers\<close>

text \<open>\<^verbatim>\<open>[] if "list" in command else {}\<close>: membership of the word in the argument list.\<close>

definition empty_result :: "string list \<Rightarrow> pyval" where
  "empty_result command = (if ''list'' \<in> set command then PyList [] else PyDict [])"

text \<open>The \<^verbatim>\<open>except (subprocess.CalledProcessError, json.JSONDecodeError)\<close> clause.\<close>

definition caught :: "py_exception \<Rightarrow> bool" where
  "caught e = (exc_class_of e = CalledProcessError \<or> exc_class_of e = JSONDecodeError)"

definition handler :: "string list \<Rightarrow> py_exception \<Rightarrow> pyval io" where
  "handler command e =
     (if caught e
      then bind_io (print_io (''Unexpected error: '' @ exc_str e))
             (\<lambda>_. return_io (empty_result command))
      else raise_io e)"

definition run_oci_command :: "env \<Rightarrow> string list \<Rightarrow> pyval io" where
  "run_oci_command ev command =
     (case subprocess_run ev command of
        Inl e \<Rightarrow> handler command e
      | Inr result \<Rightarrow>
          if returncode result \<noteq> 0
          then bind_io (print_io (''Error executing OCI CLI: '' @ stderr result))
                 (\<lambda>_. return_io (empty_result command))
          else
            (case json_loads ev (stdout result) of
               Inl e \<Rightarrow> handler command e
             | Inr (JsonObject d) \<Rightarrow> return_io (dict_get d ''data'' (PyList []))
             | Inr JsonOther \<Rightarrow>
                 handler command (Exc AttributeError ''object has no attribute get'')))"

definition pdb_list_command :: "string \<Rightarrow> string \<Rightarrow> string list" where
  "pdb_list_command profile compartment_id =
     [''oci'', ''db'', ''pluggable-database'', ''list'', ''--limit'', ''1000'',
      ''--compartment-id'', compartment_id, ''--profile'', profile]"

definition get_pdb_list :: "env \<Rightarrow> string \<Rightarrow> string \<Rightarrow> pyval io" where
  "get_pdb_list ev profile compartment_id =
     bind_io (print_io ''Fetching PDBs...'')
       (\<lambda>_. run_oci_command ev (pdb_list_command profile compartment_id))"

text \<open>A dict comprehension \<^verbatim>\<open>{key(x): value(x) for x in xs}\<close>: a later element overrides.\<close>

definition dict_comprehension :: "('a \<Rightarrow> 'k) \<Rightarrow> ('a \<Rightarrow> 'v) \<Rightarrow> 'a list \<Rightarrow> ('k \<rightharpoonup> 'v)" where
  "dict_comprehension key val xs = foldl (\<lambda>d x. d(key x \<mapsto> val x)) Map.empty xs"

definition cdb_list_command :: "string \<Rightarrow> string \<Rightarrow> string list" where
  "cdb_list_command profile compartment_id =
     [''oci'', ''db'', ''database'', ''list'', ''--limit'', ''2000'',
      ''--compartment-id'', compartment_id, ''--profile'', profile]"

definition get_cdb_mapping ::
  "env \<Rightarrow> string \<Rightarrow> string \<Rightarrow> (string \<rightharpoonup> (string \<rightharpoonup> string)) io" where
  "get_cdb_mapping ev profile compartment_id =
     bind_io (print_io ''Fetching CDBs...'')
       (\<lambda>_. bind_io (run_oci_command ev (cdb_list_command profile compartment_id))
         (\<lambda>databases.
            case iter_dicts databases of
              Inl e \<Rightarrow> raise_io e
            | Inr dbs \<Rightarrow>
                return_io
                  (dict_comprehension
                     (\<lambda>db. dict_get (map_of db) ''id'' ''Unknown ID'')
                     (\<lambda>db. [''CDB_Name'' \<mapsto> dict_get (map_of db) ''db-name'' ''Unknown CDB'',
                            ''DB_Home_ID'' \<mapsto>
                              dict_get (map_of db) ''db-home-id'' ''Unknown DB Home''])
                     dbs)))"

definition db_home_list_command :: "string \<Rightarrow> string \<Rightarrow> string list" where
  "db_home_list_command profile compartment_id =
     [''oci'', ''db'', ''db-home'', ''list'', ''--limit'', ''1000'',
      ''--compartment-id'', compartment_id, ''--profile'', profile]"

definition get_db_home_mapping :: "env \<Rightarrow> string \<Rightarrow> string \<Rightarrow> (string \<rightharpoonup> string) io" where
  "get_db_home_mapping ev profile compartment_id =
     bind_io (print_io ''Fetching DB Homes...'')
       (\<lambda>_. bind_io (run_oci_command ev (db_home_list_command profile compartment_id))
         (\<lambda>db_homes.
            case iter_dicts db_homes of
              Inl e \<Rightarrow> raise_io e
            | Inr homes \<Rightarrow>
                return_io
                  (dict_comprehension
                     (\<lambda>home. dict_get (map_of home) ''id'' ''Unknown DB Home'')
                     (\<lambda>home. dict_get (map_of home) ''display-name'' ''Unknown Oracle Home'')
                     homes)))"

definition compartment_get_command :: "string \<Rightarrow> string \<Rightarrow> string list" where
  "compartment_get_command profile compartment_id =
     [''oci'', ''iam'', ''compartment'', ''get'',
      ''--compartment-id'', compartment_id, ''--profile'', profile]"

text \<open>
  \<^verbatim>\<open>compartment.get("name", ...) if compartment else ...\<close>: an empty list or dict takes the
  else branch; a non-empty list has no \<^verbatim>\<open>get\<close>.
\<close>

definition get_compartment_name :: "env \<Rightarrow> string \<Rightarrow> string \<Rightarrow> string io" where
  "get_compartment_name ev profile compartment_id =
     bind_io (print_io ''Fetching Compartment Name...'')
       (\<lambda>_. bind_io (run_oci_command ev (compartment_get_command profile compartment_id))
         (\<lambda>compartment.
            if truthy compartment
            then (case compartment of
                    PyDict d \<Rightarrow> return_io (dict_get (map_of d) ''name'' ''Unknown Compartment'')
                  | PyList xs \<Rightarrow>
                      raise_io (Exc AttributeError ''list object has no attribute get''))
            else return_io ''Unknown Compartment''))"

section \<open>The CSV writer\<close>

text \<open>
  \<^verbatim>\<open>csv.DictWriter(csvfile, fieldnames=[...])\<close> uses the \<^verbatim>\<open>excel\<close> dialect of Python's \<^verbatim>\<open>csv\<close>
  module: delimiter \<^verbatim>\<open>,\<close>, quote character \<^verbatim>\<open>"\<close>, doubled quotes, minimal quoting, line
  terminator CR LF. A field is quoted exactly when it holds the delimiter, the quote
  character or a character of the line terminator; inside the quotes a quote character
  is written twice.
\<close>

definition fieldnames :: "string list" where
  "fieldnames =
     [''PDB_Name'', ''CDB_Name'', ''Oracle_Home'', ''Compartment_Name'', ''CDB_ID'',
      ''Compartment_ID'']"

text \<open>\<^verbatim>\<open>DictWriter._dict_to_list\<close>: the values of a row in the order of the field names.\<close>

definition dict_to_list :: "mapping_row \<Rightarrow> string list" where
  "dict_to_list r =
     [PDB_Name r, CDB_Name r, Oracle_Home r, Compartment_Name r, CDB_ID r, Compartment_ID r]"

definition CR :: char where
  "CR = CHR 0x0D"

definition LF :: char where
  "LF = CHR 0x0A"

definition special :: "char \<Rightarrow> bool" where
  "special c = (c = CHR '','' \<or> c = CHR ''\"'' \<or> c = CR \<or> c = LF)"

fun double_quotes :: "string \<Rightarrow> string" where
  "double_quotes [] = []"
| "double_quotes (c # cs) =
     (if c = CHR ''\"'' then CHR ''\"'' # CHR ''\"'' # double_quotes cs
      else c # double_quotes cs)"

definition csv_field :: "string \<Rightarrow> string" where
  "csv_field s =
     (if list_ex special s then CHR ''\"'' # double_quotes s @ [CHR ''\"''] else s)"

fun join_fields :: "string list \<Rightarrow> string" where
  "join_fields [] = []"
| "join_fields [f] = f"
| "join_fields (f # g # fs) = f @ CHR '','' # join_fields (g # fs)"

text \<open>
  \<^verbatim>\<open>writer.writerow\<close>: the fields joined by the delimiter, then the line terminator. A
  record of one empty field is written as a pair of quotes.
\<close>

definition csv_writerow :: "string list \<Rightarrow> string" where
  "csv_writerow row =
     (if row = [[]] then [CHR ''\"'', CHR ''\"''] else join_fields (map csv_field row))
     @ [CR, LF]"

text \<open>\<^verbatim>\<open>writer.writeheader()\<close> followed by \<^verbatim>\<open>writer.writerows(mapping)\<close>: what the file receives.\<close>

definition csv_text :: "mapping_row list \<Rightarrow> string" where
  "csv_text mapping =
     csv_writerow fieldnames @ concat (map (\<lambda>r. csv_writerow (dict_to_list r)) mapping)"

section \<open>Writing the file\<close>

text \<open>The files of the working directory: a map from file names to contents.\<close>

type_synonym files = "string \<rightharpoonup> string"

text \<open>
  \<^verbatim>\<open>except Exception as e\<close> catches every exception of the model, so \<^verbatim>\<open>save_to_csv\<close> always
  returns \<^verbatim>\<open>None\<close>.
\<close>

definition save_to_csv :: "env \<Rightarrow> mapping_row list \<Rightarrow> string \<Rightarrow> files \<Rightarrow> files \<times> unit io" where
  "save_to_csv ev mapping output_file fs =
     (case csv_io ev output_file of
        IoOk \<Rightarrow>
          (fs(output_file \<mapsto> csv_text mapping), print_io (''CSV generated: '' @ output_file))
      | IoError e left \<Rightarrow>
          (fs(output_file := left), print_io (''Error saving CSV: '' @ exc_str e)))"

section \<open>The entry point\<close>

text \<open>
  \<^verbatim>\<open>main\<close> after argument parsing, on the two required arguments. The three later fetches
  and the join run in sequence; an exception of any of them leaves \<^verbatim>\<open>main\<close>.
\<close>

definition fetch_and_join :: "env \<Rightarrow> string \<Rightarrow> string \<Rightarrow> pyval \<Rightarrow> mapping_row list io" where
  "fetch_and_join ev profile compartment_id pdbs =
     bind_io (get_cdb_mapping ev profile compartment_id)
       (\<lambda>cdb_mapping. bind_io (get_db_home_mapping ev profile compartment_id)
         (\<lambda>db_home_mapping. bind_io (get_compartment_name ev profile compartment_id)
           (\<lambda>compartment_name.
              case extract_pdb_cdb_mapping pdbs cdb_mapping db_home_mapping
                     compartment_id compartment_name of
                Inl e \<Rightarrow> raise_io e
              | Inr mapping \<Rightarrow> return_io mapping)))"

definition main :: "env \<Rightarrow> string \<Rightarrow> string \<Rightarrow> files \<Rightarrow> files \<times> unit io" where
  "main ev profile compartment_id fs =
     (case bind_io (print_io ''Starting extraction...'')
             (\<lambda>_. get_pdb_list ev profile compartment_id) of
        (out1, Inl e) \<Rightarrow> (fs, (out1, Inl e))
      | (out1, Inr pdbs) \<Rightarrow>
          if \<not> truthy pdbs
          then (fs, (out1 @ [''No PDB data found. Check OCI CLI command and permissions.''],
                     Inr ()))
          else
            (case fetch_and_join ev profile compartment_id pdbs of
               (out2, Inl e) \<Rightarrow> (fs, (out1 @ out2, Inl e))
             | (out2, Inr mapping) \<Rightarrow>
                 (case save_to_csv ev mapping ''pdb_cdb_mapping.csv'' fs of
                    (fs', (out3, Inl e)) \<Rightarrow> (fs', (out1 @ out2 @ out3, Inl e))
                  | (fs', (out3, Inr u)) \<Rightarrow>
                      (fs', (out1 @ out2 @ out3 @ [''Process completed successfully.''],
                             Inr ())))))"

text \<open>
  The exit status of the interpreter: 0 when \<^verbatim>\<open>main\<close> returns, 1 when an exception leaves
  it.
\<close>

fun exit_status :: "py_exception + unit \<Rightarrow> int" where
  "exit_status (Inr u) = 0"
| "exit_status (Inl e) = 1"

section \<open>Reading the file back\<close>

text \<open>
  The program has no reader of its own; the file is read back with \<^verbatim>\<open>csv.reader\<close> of the
  same \<^verbatim>\<open>csv\<close> module in the same \<^verbatim>\<open>excel\<close> dialect, over a file opened with \<^verbatim>\<open>newline=""\<close>. The
  reader is the state machine of the module: it is fed the characters of each line and,
  after the last character of a line, the end-of-line mark; a record is complete when the
  mark leaves the machine in \<open>START_RECORD\<close>.
\<close>

datatype parser_state =
  START_RECORD | START_FIELD | IN_FIELD | IN_QUOTED_FIELD | QUOTE_IN_QUOTED_FIELD | EAT_CRNL

datatype event = Ch char | EOL

text \<open>The state of the reader: the machine's state, the field and the record so far.\<close>

type_synonym reader_state = "parser_state \<times> string \<times> string list"

definition save_field :: "parser_state \<Rightarrow> string \<Rightarrow> string list \<Rightarrow> reader_state" where
  "save_field st fld flds = (st, [], flds @ [fld])"

text \<open>The first character of a field.\<close>

definition start_field :: "string \<Rightarrow> string list \<Rightarrow> char \<Rightarrow> reader_state" where
  "start_field fld flds c =
     (if c = LF \<or> c = CR then save_field EAT_CRNL fld flds
      else if c = CHR ''\"'' then (IN_QUOTED_FIELD, fld, flds)
      else if c = CHR '','' then save_field START_FIELD fld flds
      else (IN_FIELD, fld @ [c], flds))"

text \<open>
  One step of the machine. After a record's line terminator only further terminator
  characters may come before the end of the line; anything else is an error (\<open>None\<close>).
\<close>

fun parse_process_char :: "reader_state \<Rightarrow> event \<Rightarrow> reader_state option" where
  "parse_process_char (START_RECORD, fld, flds) EOL = Some (START_RECORD, fld, flds)"
| "parse_process_char (START_RECORD, fld, flds) (Ch c) =
     (if c = LF \<or> c = CR then Some (EAT_CRNL, fld, flds)
      else Some (start_field fld flds c))"
| "parse_process_char (START_FIELD, fld, flds) EOL = Some (save_field START_RECORD fld flds)"
| "parse_process_char (START_FIELD, fld, flds) (Ch c) = Some (start_field fld flds c)"
| "parse_process_char (IN_FIELD, fld, flds) EOL = Some (save_field START_RECORD fld flds)"
| "parse_process_char (IN_FIELD, fld, flds) (Ch c) =
     (if c = LF \<or> c = CR then Some (save_field EAT_CRNL fld flds)
      else if c = CHR '','' then Some (save_field START_FIELD fld flds)
      else Some (IN_FIELD, fld @ [c], flds))"
| "parse_process_char (IN_QUOTED_FIELD, fld, flds) EOL = Some (IN_QUOTED_FIELD, fld, flds)"
| "parse_process_char (IN_QUOTED_FIELD, fld, flds) (Ch c) =
     (if c = CHR ''\"'' then Some (QUOTE_IN_QUOTED_FIELD, fld, flds)
      else Some (IN_QUOTED_FIELD, fld @ [c], flds))"
| "parse_process_char (QUOTE_IN_QUOTED_FIELD, fld, flds) EOL =
     Some (save_field START_RECORD fld flds)"
| "parse_process_char (QUOTE_IN_QUOTED_FIELD, fld, flds) (Ch c) =
     (if c = CHR ''\"'' then Some (IN_QUOTED_FIELD, fld @ [c], flds)
      else if c = CHR '','' then Some (save_field START_FIELD fld flds)
      else if c = LF \<or> c = CR then Some (save_field EAT_CRNL fld flds)
      else Some (IN_FIELD, fld @ [c], flds))"
| "parse_process_char (EAT_CRNL, fld, flds) EOL = Some (START_RECORD, fld, flds)"
| "parse_process_char (EAT_CRNL, fld, flds) (Ch c) =
     (if c = LF \<or> c = CR then Some (EAT_CRNL, fld, flds) else None)"

text \<open>
  A line of the file ends after a line feed, after a carriage return that no line feed
  follows, and at the end of the text.
\<close>

definition line_ends :: "char \<Rightarrow> string \<Rightarrow> bool" where
  "line_ends c rest =
     (c = LF \<or> rest = [] \<or> (c = CR \<and> (case rest of [] \<Rightarrow> True | d # ds \<Rightarrow> d \<noteq> LF)))"

text \<open>
  The records of a text, from a given state. At the end of the text a field that was
  begun, or an open quoted field, closes the last record.
\<close>

fun reader :: "reader_state \<Rightarrow> string \<Rightarrow> string list list option" where
  "reader (st, fld, flds) [] =
     Some (if fld \<noteq> [] \<or> st = IN_QUOTED_FIELD then [flds @ [fld]] else [])"
| "reader s (c # cs) =
     (case parse_process_char s (Ch c) of
        None \<Rightarrow> None
      | Some s1 \<Rightarrow>
          if line_ends c cs
          then (case parse_process_char s1 EOL of
                  None \<Rightarrow> None
                | Some (st2, fld2, flds2) \<Rightarrow>
                    if st2 = START_RECORD
                    then map_option (Cons flds2) (reader (START_RECORD, [], []) cs)
                    else reader (st2, fld2, flds2) cs)
          else reader s1 cs)"

definition csv_reader :: "string \<Rightarrow> string list list option" where
  "csv_reader text = reader (START_RECORD, [], []) text"

section \<open>Example data\<close>

text \<open>
  A small inventory: three PDBs (one in an unknown CDB, one without a name), two CDBs
  (one on an unknown home), one home, and a command line client that serves them to the
  profile \<^verbatim>\<open>DEFAULT\<close> and refuses every other command.
\<close>

definition example_pdbs :: "attrs list" where
  "example_pdbs =
     [[(''pdb-name'', ''P1''), (''container-database-id'', ''cdb1'')],
      [(''pdb-name'', ''P2''), (''container-database-id'', ''cdb9'')],
      [(''container-database-id'', ''cdb2'')]]"

definition example_cdbs :: "attrs list" where
  "example_cdbs =
     [[(''id'', ''cdb1''), (''db-name'', ''C1''), (''db-home-id'', ''h1'')],
      [(''id'', ''cdb2''), (''db-name'', ''C2''), (''db-home-id'', ''h7'')]]"

definition example_homes :: "attrs list" where
  "example_homes = [[(''id'', ''h1''), (''display-name'', ''HOME1'')]]"

definition example_cdb_mapping :: "string \<rightharpoonup> (string \<rightharpoonup> string)" where
  "example_cdb_mapping =
     [''cdb1'' \<mapsto> [''CDB_Name'' \<mapsto> ''C1'', ''DB_Home_ID'' \<mapsto> ''h1''],
      ''cdb2'' \<mapsto> [''CDB_Name'' \<mapsto> ''C2'', ''DB_Home_ID'' \<mapsto> ''h7'']]"

definition example_home_mapping :: "string \<rightharpoonup> string" where
  "example_home_mapping = [''h1'' \<mapsto> ''HOME1'']"

definition example_env :: env where
  "example_env =
     \<lparr> subprocess_run = (\<lambda>command.
         if command = pdb_list_command ''DEFAULT'' ''ocid1.c''
         then Inr \<lparr>returncode = 0, stdout = ''pdbs'', stderr = []\<rparr>
         else if command = cdb_list_command ''DEFAULT'' ''ocid1.c''
         then Inr \<lparr>returncode = 0, stdout = ''cdbs'', stderr = []\<rparr>
         else if command = db_home_list_command ''DEFAULT'' ''ocid1.c''
         then Inr \<lparr>returncode = 0, stdout = ''homes'', stderr = []\<rparr>
         else if command = compartment_get_command ''DEFAULT'' ''ocid1.c''
         then Inr \<lparr>returncode = 0, stdout = ''compartment'', stderr = []\<rparr>
         else Inr \<lparr>returncode = 1, stdout = [], stderr = ''ServiceError''\<rparr>),
       json_loads = (\<lambda>s.
         if s = ''pdbs'' then Inr (JsonObject [''data'' \<mapsto> PyList example_pdbs])
         else if s = ''cdbs'' then Inr (JsonObject [''data'' \<mapsto> PyList example_cdbs])
         else if s = ''homes'' then Inr (JsonObject [''data'' \<mapsto> PyList example_homes])
         else if s = ''compartment''
         then Inr (JsonObject [''data'' \<mapsto> PyDict [(''name'', ''Prod'')]])
         else Inl (Exc JSONDecodeError ''Expecting value'')),
       csv_io = (\<lambda>f. IoOk) \<rparr>"

text \<open>The same client on a file system that refuses the write.\<close>

definition readonly_env :: env where
  "readonly_env =
     example_env\<lparr>csv_io := (\<lambda>f. IoError (Exc OSError ''Permission denied'') None)\<rparr>"

text \<open>Two rows, one with a comma in a field and an empty field.\<close>

definition example_rows :: "mapping_row list" where
  "example_rows =
     [\<lparr>PDB_Name = ''P1'', CDB_Name = ''C1'', Oracle_Home = ''HOME1'',
       Compartment_Name = ''Prod'', CDB_ID = ''cdb1'', Compartment_ID = ''ocid1.c''\<rparr>,
      \<lparr>PDB_Name = ''P,2'', CDB_Name = ''Unknown CDB'', Oracle_Home = ''Unknown Oracle Home'',
       Compartment_Name = ''Prod'', CDB_ID = [], Compartment_ID = ''ocid1.c''\<rparr>]"

section \<open>Basic facts\<close>

lemma bind_io_Inr:
  "bind_io m f = (out, Inr y) \<longleftrightarrow>
     (\<exists>o1 x o2. m = (o1, Inr x) \<and> f x = (o2, Inr y) \<and> out = o1 @ o2)"
  by (cases m) (auto simp: bind_io_def split: sum.splits prod.splits)

lemma bind_io_print: "bind_io (print_io s) f = (s # fst (f ()), snd (f ()))"
  by (simp add: bind_io_def print_io_def split: prod.splits)

lemma extract_list:
  "extract_pdb_cdb_mapping (PyList pdbs) cm hm cid cn = Inr (map (pdb_row cm hm cid cn) pdbs)"
  by (simp add: extract_pdb_cdb_mapping_def)

lemma fetch_and_join_Inr:
  assumes "fetch_and_join ev profile cid pdbs = (out, Inr rows)"
  shows "\<exists>o1 cm o2 hm o3 cn.
           get_cdb_mapping ev profile cid = (o1, Inr cm)
         \<and> get_db_home_mapping ev profile cid = (o2, Inr hm)
         \<and> get_compartment_name ev profile cid = (o3, Inr cn)
         \<and> extract_pdb_cdb_mapping pdbs cm hm cid cn = Inr rows
         \<and> out = o1 @ o2 @ o3"
proof -
  from assms obtain o1 cm o2 hm o3 cn o4 where
    a: "get_cdb_mapping ev profile cid = (o1, Inr cm)"
    and b: "get_db_home_mapping ev profile cid = (o2, Inr hm)"
    and c: "get_compartment_name ev profile cid = (o3, Inr cn)"
    and d: "(case extract_pdb_cdb_mapping pdbs cm hm cid cn of
               Inl e \<Rightarrow> raise_io e | Inr mapping \<Rightarrow> return_io mapping) = (o4, Inr rows)"
    and e: "out = o1 @ o2 @ o3 @ o4"
    unfolding fetch_and_join_def bind_io_Inr by blast
  from d have "extract_pdb_cdb_mapping pdbs cm hm cid cn = Inr rows \<and> o4 = []"
    by (cases "extract_pdb_cdb_mapping pdbs cm hm cid cn")
       (simp_all add: raise_io_def return_io_def)
  with a b c e show ?thesis by simp
qed

lemma main_start:
  "get_pdb_list ev profile cid = (out1, r) \<Longrightarrow>
   bind_io (print_io ''Starting extraction...'') (\<lambda>_. get_pdb_list ev profile cid)
     = (''Starting extraction...'' # out1, r)"
  by (simp add: bind_io_print)

lemma main_abort:
  assumes "get_pdb_list ev profile cid = (out1, Inr pdbs)" and "\<not> truthy pdbs"
  shows "main ev profile cid fs =
           (fs, (''Starting extraction...'' # out1
                   @ [''No PDB data found. Check OCI CLI command and permissions.''], Inr ()))"
  using assms(2) by (simp add: main_def main_start [OF assms(1)])

lemma main_write:
  assumes "get_pdb_list ev profile cid = (out1, Inr pdbs)" and "truthy pdbs"
    and "fetch_and_join ev profile cid pdbs = (out2, Inr rows)"
  shows "main ev profile cid fs =
           (fst (save_to_csv ev rows ''pdb_cdb_mapping.csv'' fs),
            (''Starting extraction...'' # out1 @ out2
               @ fst (snd (save_to_csv ev rows ''pdb_cdb_mapping.csv'' fs))
               @ [''Process completed successfully.''], Inr ()))"
  using main_start [OF assms(1)] assms(2,3)
  by (simp add: main_def save_to_csv_def print_io_def split: io_outcome.splits)

lemma main_other_files:
  "f \<noteq> ''pdb_cdb_mapping.csv'' \<Longrightarrow> fst (main ev profile cid fs) f = fs f"
  by (auto simp: main_def save_to_csv_def split: prod.splits sum.splits io_outcome.splits)

lemma run_oci_command_csv_io:
  "run_oci_command (ev\<lparr>csv_io := x\<rparr>) command = run_oci_command ev command"
  by (simp add: run_oci_command_def split: sum.splits)

lemma get_pdb_list_csv_io:
  "get_pdb_list (ev\<lparr>csv_io := x\<rparr>) profile cid = get_pdb_list ev profile cid"
  by (simp add: get_pdb_list_def run_oci_command_csv_io)

lemma fetch_and_join_csv_io:
  "fetch_and_join (ev\<lparr>csv_io := x\<rparr>) profile cid pdbs = fetch_and_join ev profile cid pdbs"
  by (simp add: fetch_and_join_def get_cdb_mapping_def get_db_home_mapping_def
        get_compartment_name_def run_oci_command_csv_io)

text \<open>The example run, step by step.\<close>

lemma example_get_pdb_list:
  "get_pdb_list example_env ''DEFAULT'' ''ocid1.c''
     = ([''Fetching PDBs...''], Inr (PyList example_pdbs))"
  by (simp add: get_pdb_list_def run_oci_command_def example_env_def bind_io_def print_io_def
        return_io_def pdb_list_command_def dict_get_def)

lemma example_get_cdb_mapping:
  "get_cdb_mapping example_env ''DEFAULT'' ''ocid1.c''
     = ([''Fetching CDBs...''], Inr example_cdb_mapping)"
  by (simp add: get_cdb_mapping_def run_oci_command_def example_env_def bind_io_def
        print_io_def return_io_def cdb_list_command_def pdb_list_command_def dict_get_def
        example_cdbs_def dict_comprehension_def example_cdb_mapping_def)

lemma example_get_db_home_mapping:
  "get_db_home_mapping example_env ''DEFAULT'' ''ocid1.c''
     = ([''Fetching DB Homes...''], Inr example_home_mapping)"
  by (simp add: get_db_home_mapping_def run_oci_command_def example_env_def bind_io_def
        print_io_def return_io_def cdb_list_command_def pdb_list_command_def
        db_home_list_command_def dict_get_def example_homes_def dict_comprehension_def
        example_home_mapping_def)

lemma example_get_compartment_name:
  "get_compartment_name example_env ''DEFAULT'' ''ocid1.c''
     = ([''Fetching Compartment Name...''], Inr ''Prod'')"
  by (simp add: get_compartment_name_def run_oci_command_def example_env_def bind_io_def
        print_io_def return_io_def cdb_list_command_def pdb_list_command_def
        db_home_list_command_def compartment_get_command_def dict_get_def)

lemma example_fetch_and_join:
  "fetch_and_join example_env ''DEFAULT'' ''ocid1.c'' (PyList example_pdbs)
     = ([''Fetching CDBs...'', ''Fetching DB Homes...'', ''Fetching Compartment Name...''],
        Inr (map (pdb_row example_cdb_mapping example_home_mapping ''ocid1.c'' ''Prod'')
               example_pdbs))"
  by (simp add: fetch_and_join_def example_get_cdb_mapping example_get_db_home_mapping
        example_get_compartment_name extract_list bind_io_def return_io_def)

lemma example_refused:
  "get_pdb_list example_env ''OTHER'' ''ocid1.c''
     = ([''Fetching PDBs...'', ''Error executing OCI CLI: ServiceError''], Inr (PyList []))"
  by (simp add: get_pdb_list_def run_oci_command_def example_env_def bind_io_def print_io_def
        return_io_def cdb_list_command_def pdb_list_command_def db_home_list_command_def
        compartment_get_command_def empty_result_def)

section \<open>The join: placeholders and copied columns\<close>

text \<open>
  Claim C3. A PDB whose container database is not in the CDB mapping still gets its row,
  with \<^verbatim>\<open>CDB_Name\<close> \<^verbatim>\<open>"Unknown CDB"\<close> and \<^verbatim>\<open>Oracle_Home\<close> \<^verbatim>\<open>"Unknown Oracle Home"\<close>. The key
  that is absent is the one the join looks up: the PDB's \<^verbatim>\<open>container-database-id\<close>, or the
  placeholder \<^verbatim>\<open>"Unknown CDB"\<close> that stands for it when the PDB has none. An empty CDB
  mapping is the special case where every key is absent.
\<close>

theorem join_unmapped_cdb_placeholders:
  assumes "i < length pdbs"
    and "cdb_mapping (dict_get (map_of (pdbs ! i)) ''container-database-id'' ''Unknown CDB'')
           = None"
  shows "\<exists>rows. extract_pdb_cdb_mapping (PyList pdbs) cdb_mapping db_home_mapping
                   compartment_id compartment_name = Inr rows
           \<and> length rows = length pdbs
           \<and> CDB_Name (rows ! i) = ''Unknown CDB''
           \<and> Oracle_Home (rows ! i) = ''Unknown Oracle Home''"
  using assms
  by (auto simp: extract_list pdb_row_def dict_get_def dict_get_opt_def split: option.splits)

theorem join_unmapped_cdb_placeholders_witness:
  "1 < length example_pdbs
   \<and> example_cdb_mapping
        (dict_get (map_of (example_pdbs ! 1)) ''container-database-id'' ''Unknown CDB'') = None
   \<and> (\<exists>rows. extract_pdb_cdb_mapping (PyList example_pdbs) example_cdb_mapping
                 example_home_mapping ''ocid1.c'' ''Prod'' = Inr rows
          \<and> length rows = length example_pdbs
          \<and> CDB_Name (rows ! 1) = ''Unknown CDB''
          \<and> Oracle_Home (rows ! 1) = ''Unknown Oracle Home'')"
proof -
  have a: "1 < length example_pdbs"
    by (simp add: example_pdbs_def)
  have b: "example_cdb_mapping
             (dict_get (map_of (example_pdbs ! 1)) ''container-database-id'' ''Unknown CDB'')
           = None"
    by (simp add: example_pdbs_def example_cdb_mapping_def dict_get_def)
  from a b
    join_unmapped_cdb_placeholders
      [where i = 1 and pdbs = example_pdbs and cdb_mapping = example_cdb_mapping
         and db_home_mapping = example_home_mapping and compartment_id = "''ocid1.c''"
         and compartment_name = "''Prod''"]
  show ?thesis
    by blast
qed

text \<open>
  Claim C8. A PDB whose container database is in the CDB mapping, while the
  \<^verbatim>\<open>DB_Home_ID\<close> of that CDB is not in the home mapping, gets \<^verbatim>\<open>Oracle_Home\<close>
  \<^verbatim>\<open>"Unknown Oracle Home"\<close> and, as \<^verbatim>\<open>CDB_Name\<close>, the name the mapping holds for the CDB.
\<close>

theorem join_unmapped_home_placeholder:
  assumes "i < length pdbs"
    and "map_of (pdbs ! i) ''container-database-id'' = Some k"
    and "cdb_mapping k = Some cdb"
    and "cdb ''CDB_Name'' = Some name"
    and "\<forall>h. cdb ''DB_Home_ID'' = Some h \<longrightarrow> db_home_mapping h = None"
  shows "\<exists>rows. extract_pdb_cdb_mapping (PyList pdbs) cdb_mapping db_home_mapping
                   compartment_id compartment_name = Inr rows
           \<and> length rows = length pdbs
           \<and> Oracle_Home (rows ! i) = ''Unknown Oracle Home''
           \<and> CDB_Name (rows ! i) = name"
  using assms
  by (auto simp: extract_list pdb_row_def dict_get_def dict_get_opt_def split: option.splits)

theorem join_unmapped_home_placeholder_witness:
  "\<exists>rows. extract_pdb_cdb_mapping (PyList example_pdbs) example_cdb_mapping
             example_home_mapping ''ocid1.c'' ''Prod'' = Inr rows
      \<and> length rows = length example_pdbs
      \<and> Oracle_Home (rows ! 2) = ''Unknown Oracle Home''
      \<and> CDB_Name (rows ! 2) = ''C2''"
proof -
  have a: "2 < length example_pdbs"
    by (simp add: example_pdbs_def)
  have b: "map_of (example_pdbs ! 2) ''container-database-id'' = Some ''cdb2''"
    by (simp add: example_pdbs_def)
  have c: "example_cdb_mapping ''cdb2''
             = Some [''CDB_Name'' \<mapsto> ''C2'', ''DB_Home_ID'' \<mapsto> ''h7'']"
    by (simp add: example_cdb_mapping_def)
  have d: "[''CDB_Name'' \<mapsto> ''C2'', ''DB_Home_ID'' \<mapsto> ''h7''] ''CDB_Name'' = Some ''C2''"
    by simp
  have e: "\<forall>h. [''CDB_Name'' \<mapsto> ''C2'', ''DB_Home_ID'' \<mapsto> ''h7''] ''DB_Home_ID'' = Some h
               \<longrightarrow> example_home_mapping h = None"
    by (simp add: example_home_mapping_def)
  from a b c d e
    join_unmapped_home_placeholder
      [where i = 2 and pdbs = example_pdbs and cdb_mapping = example_cdb_mapping
         and db_home_mapping = example_home_mapping and k = "''cdb2''"
         and cdb = "[''CDB_Name'' \<mapsto> ''C2'', ''DB_Home_ID'' \<mapsto> ''h7'']"
         and name = "''C2''" and compartment_id = "''ocid1.c''"
         and compartment_name = "''Prod''"]
  show ?thesis
    by blast
qed

text \<open>
  Claim C9. The \<^verbatim>\<open>CDB_ID\<close> of a row is the \<^verbatim>\<open>container-database-id\<close> of its PDB, unchanged,
  when the PDB has that attribute, and \<^verbatim>\<open>"Unknown CDB"\<close> when it has not.
\<close>

theorem join_cdb_id_verbatim:
  assumes "i < length pdbs"
  shows "\<exists>rows. extract_pdb_cdb_mapping (PyList pdbs) cdb_mapping db_home_mapping
                   compartment_id compartment_name = Inr rows
           \<and> length rows = length pdbs
           \<and> CDB_ID (rows ! i) =
               (case map_of (pdbs ! i) ''container-database-id'' of
                  Some v \<Rightarrow> v
                | None \<Rightarrow> ''Unknown CDB'')"
  using assms
  by (auto simp: extract_list pdb_row_def dict_get_def split: option.splits)

theorem join_cdb_id_verbatim_witness:
  "\<exists>rows. extract_pdb_cdb_mapping (PyList [[(''pdb-name'', ''P1'')], [(''container-database-id'', ''cdb1'')]])
             example_cdb_mapping example_home_mapping ''ocid1.c'' ''Prod'' = Inr rows
      \<and> CDB_ID (rows ! 0) = ''Unknown CDB''
      \<and> CDB_ID (rows ! 1) = ''cdb1''"
  using join_cdb_id_verbatim [of 0 "[[(''pdb-name'', ''P1'')], [(''container-database-id'', ''cdb1'')]]"
          example_cdb_mapping example_home_mapping "''ocid1.c''" "''Prod''"]
    join_cdb_id_verbatim [of 1 "[[(''pdb-name'', ''P1'')], [(''container-database-id'', ''cdb1'')]]"
          example_cdb_mapping example_home_mapping "''ocid1.c''" "''Prod''"]
  by auto

text \<open>
  Claim C10. A PDB record that has no \<^verbatim>\<open>pdb-name\<close> attribute gets the \<^verbatim>\<open>PDB_Name\<close>
  \<^verbatim>\<open>"Unknown PDB"\<close>.
\<close>

theorem join_pdb_name_placeholder:
  assumes "i < length pdbs"
    and "map_of (pdbs ! i) ''pdb-name'' = None"
  shows "\<exists>rows. extract_pdb_cdb_mapping (PyList pdbs) cdb_mapping db_home_mapping
                   compartment_id compartment_name = Inr rows
           \<and> length rows = length pdbs
           \<and> PDB_Name (rows ! i) = ''Unknown PDB''"
  using assms
  by (auto simp: extract_list pdb_row_def dict_get_def split: option.splits)

theorem join_pdb_name_placeholder_witness:
  "\<exists>rows. extract_pdb_cdb_mapping (PyList example_pdbs) example_cdb_mapping
             example_home_mapping ''ocid1.c'' ''Prod'' = Inr rows
      \<and> length rows = length example_pdbs
      \<and> PDB_Name (rows ! 2) = ''Unknown PDB''"
proof -
  have a: "2 < length example_pdbs"
    by (simp add: example_pdbs_def)
  have b: "map_of (example_pdbs ! 2) ''pdb-name'' = None"
    by (simp add: example_pdbs_def)
  from a b
    join_pdb_name_placeholder
      [where i = 2 and pdbs = example_pdbs and cdb_mapping = example_cdb_mapping
         and db_home_mapping = example_home_mapping and compartment_id = "''ocid1.c''"
         and compartment_name = "''Prod''"]
  show ?thesis
    by blast
qed

text \<open>
  Claim C7. All rows of one run carry the same \<^verbatim>\<open>Compartment_Name\<close> and the same
  \<^verbatim>\<open>Compartment_ID\<close>: the join copies its two arguments into every row, and \<^verbatim>\<open>main\<close> passes
  it the compartment name it fetched and the compartment id of the command line.
\<close>

theorem join_compartment_constant:
  "(extract_pdb_cdb_mapping pdbs cdb_mapping db_home_mapping compartment_id compartment_name
      = Inr rows
    \<longrightarrow> (\<forall>r \<in> set rows.
           Compartment_Name r = compartment_name \<and> Compartment_ID r = compartment_id))
   \<and> (fetch_and_join ev profile compartment_id pdbs = (out, Inr mapping)
      \<longrightarrow> (\<exists>out3 name. get_compartment_name ev profile compartment_id = (out3, Inr name)
            \<and> (\<forall>r \<in> set mapping.
                 Compartment_Name r = name \<and> Compartment_ID r = compartment_id)))"
proof (intro conjI impI)
  assume "extract_pdb_cdb_mapping pdbs cdb_mapping db_home_mapping compartment_id
            compartment_name = Inr rows"
  then show "\<forall>r \<in> set rows.
               Compartment_Name r = compartment_name \<and> Compartment_ID r = compartment_id"
    by (auto simp: extract_pdb_cdb_mapping_def pdb_row_def split: sum.splits)
next
  assume "fetch_and_join ev profile compartment_id pdbs = (out, Inr mapping)"
  from fetch_and_join_Inr [OF this] obtain cm hm out3 name where
    c: "get_compartment_name ev profile compartment_id = (out3, Inr name)"
    and x: "extract_pdb_cdb_mapping pdbs cm hm compartment_id name = Inr mapping"
    by blast
  from x have "\<forall>r \<in> set mapping. Compartment_Name r = name \<and> Compartment_ID r = compartment_id"
    by (auto simp: extract_pdb_cdb_mapping_def pdb_row_def split: sum.splits)
  with c show "\<exists>out3 name. get_compartment_name ev profile compartment_id = (out3, Inr name)
                 \<and> (\<forall>r \<in> set mapping.
                      Compartment_Name r = name \<and> Compartment_ID r = compartment_id)"
    by blast
qed

theorem join_compartment_constant_witness:
  "\<exists>rows. extract_pdb_cdb_mapping (PyList example_pdbs) example_cdb_mapping
             example_home_mapping ''ocid1.c'' ''Prod'' = Inr rows
      \<and> map Compartment_Name rows = [''Prod'', ''Prod'', ''Prod'']
      \<and> map Compartment_ID rows = [''ocid1.c'', ''ocid1.c'', ''ocid1.c'']"
proof -
  let ?rows = "map (pdb_row example_cdb_mapping example_home_mapping ''ocid1.c'' ''Prod'')
                 example_pdbs"
  have x: "extract_pdb_cdb_mapping (PyList example_pdbs) example_cdb_mapping
             example_home_mapping ''ocid1.c'' ''Prod'' = Inr ?rows"
    by (rule extract_list)
  have n: "length ?rows = 3"
    by (simp add: example_pdbs_def)
  from x
    join_compartment_constant
      [where pdbs = "PyList example_pdbs" and cdb_mapping = example_cdb_mapping
         and db_home_mapping = example_home_mapping and compartment_id = "''ocid1.c''"
         and compartment_name = "''Prod''" and rows = ?rows]
  have all: "\<forall>r \<in> set ?rows. Compartment_Name r = ''Prod'' \<and> Compartment_ID r = ''ocid1.c''"
    by blast
  then have "map Compartment_Name ?rows = replicate (length ?rows) ''Prod''"
    and "map Compartment_ID ?rows = replicate (length ?rows) ''ocid1.c''"
    by (simp_all add: map_replicate_const [symmetric] cong: map_cong)
  with x n show ?thesis
    by (simp add: numeral_3_eq_3)
qed

section \<open>The run as a whole\<close>

text \<open>
  Claim C4. When the write of the CSV file raises, \<^verbatim>\<open>save_to_csv\<close> prints the error and
  returns; \<^verbatim>\<open>main\<close> then prints its completion message as its last line and returns, so
  the exit status is 0, as it is for the same run on a file system that accepts the
  write.
\<close>

theorem csv_failure_is_soft:
  assumes "get_pdb_list ev profile compartment_id = (out1, Inr pdbs)"
    and "truthy pdbs"
    and "fetch_and_join ev profile compartment_id pdbs = (out2, Inr rows)"
    and "csv_io ev ''pdb_cdb_mapping.csv'' = IoError e left"
  shows "save_to_csv ev rows ''pdb_cdb_mapping.csv'' fs =
           (fs(''pdb_cdb_mapping.csv'' := left), ([''Error saving CSV: '' @ exc_str e], Inr ()))
       \<and> main ev profile compartment_id fs =
           (fs(''pdb_cdb_mapping.csv'' := left),
            (''Starting extraction...'' # out1 @ out2
               @ [''Error saving CSV: '' @ exc_str e, ''Process completed successfully.''],
             Inr ()))
       \<and> exit_status (snd (snd (main ev profile compartment_id fs))) = 0
       \<and> main (ev\<lparr>csv_io := (\<lambda>f. IoOk)\<rparr>) profile compartment_id fs =
           (fs(''pdb_cdb_mapping.csv'' \<mapsto> csv_text rows),
            (''Starting extraction...'' # out1 @ out2
               @ [''CSV generated: pdb_cdb_mapping.csv'', ''Process completed successfully.''],
             Inr ()))
       \<and> exit_status (snd (snd (main (ev\<lparr>csv_io := (\<lambda>f. IoOk)\<rparr>) profile compartment_id fs)))
           = exit_status (snd (snd (main ev profile compartment_id fs)))"
proof -
  have s: "save_to_csv ev rows ''pdb_cdb_mapping.csv'' fs =
             (fs(''pdb_cdb_mapping.csv'' := left),
              ([''Error saving CSV: '' @ exc_str e], Inr ()))"
    using assms(4) by (simp add: save_to_csv_def print_io_def)
  have m: "main ev profile compartment_id fs =
             (fs(''pdb_cdb_mapping.csv'' := left),
              (''Starting extraction...'' # out1 @ out2
                 @ [''Error saving CSV: '' @ exc_str e, ''Process completed successfully.''],
               Inr ()))"
    by (simp add: main_write [OF assms(1,2,3)] s)
  let ?ok = "ev\<lparr>csv_io := (\<lambda>f. IoOk)\<rparr>"
  have p: "get_pdb_list ?ok profile compartment_id = (out1, Inr pdbs)"
    using assms(1) by (simp add: get_pdb_list_csv_io)
  have f: "fetch_and_join ?ok profile compartment_id pdbs = (out2, Inr rows)"
    using assms(3) by (simp add: fetch_and_join_csv_io)
  have g: "main ?ok profile compartment_id fs =
             (fs(''pdb_cdb_mapping.csv'' \<mapsto> csv_text rows),
              (''Starting extraction...'' # out1 @ out2
                 @ [''CSV generated: pdb_cdb_mapping.csv'', ''Process completed successfully.''],
               Inr ()))"
    by (simp add: main_write [OF p assms(2) f] save_to_csv_def print_io_def)
  from s m g show ?thesis
    by simp
qed

theorem csv_failure_is_soft_witness:
  "main readonly_env ''DEFAULT'' ''ocid1.c'' Map.empty =
     (Map.empty,
      ([''Starting extraction...'', ''Fetching PDBs...'', ''Fetching CDBs...'',
        ''Fetching DB Homes...'', ''Fetching Compartment Name...'',
        ''Error saving CSV: Permission denied'', ''Process completed successfully.''],
       Inr ()))
   \<and> exit_status (snd (snd (main readonly_env ''DEFAULT'' ''ocid1.c'' Map.empty))) = 0"
proof -
  have p: "get_pdb_list readonly_env ''DEFAULT'' ''ocid1.c''
             = ([''Fetching PDBs...''], Inr (PyList example_pdbs))"
    by (simp add: readonly_env_def get_pdb_list_csv_io example_get_pdb_list)
  have t: "truthy (PyList example_pdbs)"
    by (simp add: example_pdbs_def)
  have f: "fetch_and_join readonly_env ''DEFAULT'' ''ocid1.c'' (PyList example_pdbs)
             = ([''Fetching CDBs...'', ''Fetching DB Homes...'',
                 ''Fetching Compartment Name...''],
                Inr (map (pdb_row example_cdb_mapping example_home_mapping ''ocid1.c''
                            ''Prod'') example_pdbs))"
    by (simp add: readonly_env_def fetch_and_join_csv_io example_fetch_and_join)
  have c: "csv_io readonly_env ''pdb_cdb_mapping.csv''
             = IoError (Exc OSError ''Permission denied'') None"
    by (simp add: readonly_env_def)
  from csv_failure_is_soft [OF p t f c, of Map.empty] show ?thesis
    by simp
qed

section \<open>The layout of the file\<close>

lemma csv_writerow_fieldnames:
  "csv_writerow fieldnames =
     ''PDB_Name,CDB_Name,Oracle_Home,Compartment_Name,CDB_ID,Compartment_ID'' @ [CR, LF]"
  by (simp add: csv_writerow_def fieldnames_def csv_field_def special_def CR_def LF_def)

lemma csv_writerow_row:
  "csv_writerow (dict_to_list r) =
     join_fields (map csv_field [PDB_Name r, CDB_Name r, Oracle_Home r, Compartment_Name r,
                                 CDB_ID r, Compartment_ID r]) @ [CR, LF]"
  by (simp add: csv_writerow_def dict_to_list_def)

text \<open>
  Claim C6. A successful \<^verbatim>\<open>save_to_csv\<close> leaves in its file the header record
  \<^verbatim>\<open>PDB_Name,CDB_Name,Oracle_Home,Compartment_Name,CDB_ID,Compartment_ID\<close> and then, for each
  row in turn, one record of the six fields in that order, separated by commas, every
  record ended by CR LF. \<^verbatim>\<open>main\<close> writes that file under the name \<^verbatim>\<open>pdb_cdb_mapping.csv\<close> and
  touches no other file.
\<close>

theorem csv_layout:
  "(csv_io ev output_file = IoOk \<longrightarrow>
      fst (save_to_csv ev mapping output_file fs) output_file =
        Some (''PDB_Name,CDB_Name,Oracle_Home,Compartment_Name,CDB_ID,Compartment_ID''
              @ [CR, LF]
              @ concat (map (\<lambda>r. join_fields
                                   (map csv_field
                                      [PDB_Name r, CDB_Name r, Oracle_Home r,
                                       Compartment_Name r, CDB_ID r, Compartment_ID r])
                                 @ [CR, LF]) mapping)))
   \<and> (\<forall>f. f \<noteq> ''pdb_cdb_mapping.csv'' \<longrightarrow> fst (main ev profile compartment_id fs) f = fs f)
   \<and> (\<forall>out1 pdbs out2 rows.
         get_pdb_list ev profile compartment_id = (out1, Inr pdbs) \<and> truthy pdbs
         \<and> fetch_and_join ev profile compartment_id pdbs = (out2, Inr rows)
         \<longrightarrow> fst (main ev profile compartment_id fs) ''pdb_cdb_mapping.csv''
             = fst (save_to_csv ev rows ''pdb_cdb_mapping.csv'' fs) ''pdb_cdb_mapping.csv'')"
proof (intro conjI impI allI)
  assume "csv_io ev output_file = IoOk"
  then show "fst (save_to_csv ev mapping output_file fs) output_file =
        Some (''PDB_Name,CDB_Name,Oracle_Home,Compartment_Name,CDB_ID,Compartment_ID''
              @ [CR, LF]
              @ concat (map (\<lambda>r. join_fields
                                   (map csv_field
                                      [PDB_Name r, CDB_Name r, Oracle_Home r,
                                       Compartment_Name r, CDB_ID r, Compartment_ID r])
                                 @ [CR, LF]) mapping))"
    by (simp only: save_to_csv_def csv_text_def csv_writerow_fieldnames csv_writerow_row
                   io_outcome.case fst_conv fun_upd_same append_assoc)
next
  fix f :: string
  assume "f \<noteq> ''pdb_cdb_mapping.csv''"
  then show "fst (main ev profile compartment_id fs) f = fs f"
    by (rule main_other_files)
next
  fix out1 pdbs out2 rows
  assume "get_pdb_list ev profile compartment_id = (out1, Inr pdbs) \<and> truthy pdbs
          \<and> fetch_and_join ev profile compartment_id pdbs = (out2, Inr rows)"
  then show "fst (main ev profile compartment_id fs) ''pdb_cdb_mapping.csv''
               = fst (save_to_csv ev rows ''pdb_cdb_mapping.csv'' fs) ''pdb_cdb_mapping.csv''"
    by (simp add: main_write)
qed

theorem csv_layout_witness:
  "fst (save_to_csv example_env example_rows ''pdb_cdb_mapping.csv'' Map.empty)
     ''pdb_cdb_mapping.csv''
   = Some (''PDB_Name,CDB_Name,Oracle_Home,Compartment_Name,CDB_ID,Compartment_ID'' @ [CR, LF]
           @ ''P1,C1,HOME1,Prod,cdb1,ocid1.c'' @ [CR, LF]
           @ [CHR ''\"''] @ ''P,2'' @ [CHR ''\"'']
           @ '',Unknown CDB,Unknown Oracle Home,Prod,,ocid1.c'' @ [CR, LF])
   \<and> fst (main example_env ''DEFAULT'' ''ocid1.c'' [''notes.txt'' \<mapsto> ''keep''])
       ''notes.txt'' = Some ''keep''"
proof -
  have ok: "csv_io example_env ''pdb_cdb_mapping.csv'' = IoOk"
    by (simp add: example_env_def)
  have ne: "''notes.txt'' \<noteq> ''pdb_cdb_mapping.csv''"
    by simp
  from ok ne
    csv_layout
      [where ev = example_env and output_file = "''pdb_cdb_mapping.csv''"
         and mapping = example_rows and fs = "[''notes.txt'' \<mapsto> ''keep'']"
         and profile = "''DEFAULT''" and compartment_id = "''ocid1.c''"]
    csv_layout
      [where ev = example_env and output_file = "''pdb_cdb_mapping.csv''"
         and mapping = example_rows and fs = Map.empty
         and profile = "''DEFAULT''" and compartment_id = "''ocid1.c''"]
  show ?thesis
    by (simp add: example_rows_def csv_field_def special_def CR_def LF_def)
qed

section \<open>What a fetch returns when the command fails\<close>

text \<open>
  A command that exits with a non-zero status, or whose output \<^verbatim>\<open>json.loads\<close> rejects with
  \<^verbatim>\<open>JSONDecodeError\<close>, makes \<^verbatim>\<open>run_oci_command\<close> return its empty result: the empty list when
  the word \<^verbatim>\<open>list\<close> is among the words of the command, the empty dict otherwise.
\<close>

lemma run_oci_command_degrades:
  assumes "subprocess_run ev command = Inr result"
    and "returncode result \<noteq> 0
         \<or> (\<exists>msg. json_loads ev (stdout result) = Inl (Exc JSONDecodeError msg))"
  shows "snd (run_oci_command ev command) = Inr (empty_result command)"
  using assms
  by (auto simp: run_oci_command_def handler_def caught_def bind_io_def print_io_def
        return_io_def)

text \<open>
  An exception of \<^verbatim>\<open>subprocess.run\<close> or \<^verbatim>\<open>json.loads\<close> that the \<^verbatim>\<open>except\<close> clause does not name
  leaves \<^verbatim>\<open>run_oci_command\<close>, and so does the \<^verbatim>\<open>AttributeError\<close> of a document that is not
  an object.
\<close>

lemma run_oci_command_uncaught:
  assumes "subprocess_run ev command = Inl e" and "\<not> caught e"
  shows "run_oci_command ev command = ([], Inl e)"
  using assms by (simp add: run_oci_command_def handler_def raise_io_def)

lemma run_oci_command_not_object:
  assumes "subprocess_run ev command = Inr result" and "returncode result = 0"
    and "json_loads ev (stdout result) = Inr JsonOther"
  shows "run_oci_command ev command
           = ([], Inl (Exc AttributeError ''object has no attribute get''))"
  using assms by (simp add: run_oci_command_def handler_def raise_io_def caught_def)

lemma list_commands_have_list:
  "empty_result (pdb_list_command profile compartment_id) = PyList []"
  "empty_result (cdb_list_command profile compartment_id) = PyList []"
  "empty_result (db_home_list_command profile compartment_id) = PyList []"
  by (simp_all add: empty_result_def pdb_list_command_def cdb_list_command_def
        db_home_list_command_def)

lemma get_command_empty_result:
  "empty_result (compartment_get_command profile compartment_id) =
     (if compartment_id = ''list'' \<or> profile = ''list'' then PyList [] else PyDict [])"
  by (simp add: empty_result_def compartment_get_command_def)

text \<open>
  Claim C2. A get operation whose command exits with a non-zero status is to return an
  empty mapping. For the compartment get of the profile named \<^verbatim>\<open>list\<close> the test
  \<^verbatim>\<open>"list" in command\<close> finds the profile among the words of the command, and
  \<^verbatim>\<open>run_oci_command\<close> returns the empty list; for another profile it returns the empty dict.
\<close>

theorem compartment_get_of_profile_list:
  "run_oci_command example_env (compartment_get_command ''list'' ''ocid1.c'')
     = ([''Error executing OCI CLI: ServiceError''], Inr (PyList []))
   \<and> run_oci_command example_env (compartment_get_command ''OTHER'' ''ocid1.c'')
     = ([''Error executing OCI CLI: ServiceError''], Inr (PyDict []))"
  by (simp add: run_oci_command_def example_env_def compartment_get_command_def
        pdb_list_command_def cdb_list_command_def db_home_list_command_def bind_io_def
        print_io_def return_io_def empty_result_def)

section \<open>The round trip\<close>

declare reader.simps(2) [simp del]

lemma line_ends_LF [simp]: "line_ends LF rest"
  by (simp add: line_ends_def)

lemma line_ends_CR_LF [simp]: "\<not> line_ends CR (LF # rest)"
  by (simp add: line_ends_def CR_def LF_def)

lemma line_ends_plain [simp]: "c \<noteq> LF \<Longrightarrow> c \<noteq> CR \<Longrightarrow> line_ends c (d # ds) = False"
  by (simp add: line_ends_def)

lemma special_simps [simp]:
  "special LF" "special CR" "special (CHR '','')" "special (CHR ''\"'')"
  by (simp_all add: special_def)

lemma CR_LF_distinct [simp]:
  "CR \<noteq> LF" "LF \<noteq> CR" "CR \<noteq> CHR '',''" "LF \<noteq> CHR '',''"
  "CR \<noteq> CHR ''\"''" "LF \<noteq> CHR ''\"''" "CHR '','' \<noteq> CR" "CHR '','' \<noteq> LF"
  "CHR ''\"'' \<noteq> CR" "CHR ''\"'' \<noteq> LF"
  by (simp_all add: CR_def LF_def)


lemma not_special:
  "\<not> special c \<Longrightarrow> c \<noteq> LF \<and> c \<noteq> CR \<and> c \<noteq> CHR '','' \<and> c \<noteq> CHR ''\"''"
  by (auto simp: special_def)

lemma line_ends_append [simp]:
  "c \<noteq> LF \<Longrightarrow> c \<noteq> CR \<Longrightarrow> line_ends c (s @ d # tail) = False"
  by (cases s) simp_all

lemma reader_step:
  "parse_process_char s (Ch c) = Some s1 \<Longrightarrow> \<not> line_ends c cs \<Longrightarrow>
   reader s (c # cs) = reader s1 cs"
  by (simp add: reader.simps(2))

lemma reader_quoted_step:
  "c \<noteq> CHR ''\"'' \<Longrightarrow>
   reader (IN_QUOTED_FIELD, fld, flds) (c # cs) = reader (IN_QUOTED_FIELD, fld @ [c], flds) cs"
  by (simp add: reader.simps(2))

lemma reader_end_of_record:
  assumes "st = IN_FIELD \<or> st = QUOTE_IN_QUOTED_FIELD \<or> st = START_FIELD"
  shows "reader (st, fld, flds) (CR # LF # tail)
           = map_option (Cons (flds @ [fld])) (reader (START_RECORD, [], []) tail)"
  using assms by (auto simp: reader.simps(2) start_field_def save_field_def)

lemma reader_comma:
  assumes "st = IN_FIELD \<or> st = QUOTE_IN_QUOTED_FIELD \<or> st = START_FIELD
           \<or> (st = START_RECORD \<and> fld = [])"
  shows "reader (st, fld, flds) (CHR '','' # e # tail)
           = reader (START_FIELD, [], flds @ [fld]) (e # tail)"
  using assms
  by (auto simp: start_field_def save_field_def intro!: reader_step)

lemma reader_in_field:
  "\<not> list_ex special s \<Longrightarrow>
   reader (IN_FIELD, fld, flds) (s @ d # tail) = reader (IN_FIELD, fld @ s, flds) (d # tail)"
proof (induction s arbitrary: fld)
  case Nil
  then show ?case by simp
next
  case (Cons c s)
  then have "\<not> special c" and s: "\<not> list_ex special s"
    by simp_all
  then have c: "c \<noteq> LF" "c \<noteq> CR" "c \<noteq> CHR '',''"
    using not_special by blast+
  then have "reader (IN_FIELD, fld, flds) (c # s @ d # tail)
               = reader (IN_FIELD, fld @ [c], flds) (s @ d # tail)"
    by (intro reader_step) simp_all
  with Cons.IH [OF s, of "fld @ [c]"] show ?case
    by simp
qed

lemma reader_start_plain:
  assumes "\<not> list_ex special s" and "s \<noteq> []" and "st = START_RECORD \<or> st = START_FIELD"
  shows "reader (st, [], flds) (s @ d # tail) = reader (IN_FIELD, s, flds) (d # tail)"
proof (cases s)
  case Nil
  with assms(2) show ?thesis by simp
next
  case (Cons c s')
  with assms(1) have "\<not> special c" and s: "\<not> list_ex special s'"
    by simp_all
  then have c: "c \<noteq> LF" "c \<noteq> CR" "c \<noteq> CHR '',''" "c \<noteq> CHR ''\"''"
    using not_special by blast+
  with assms(3) have "reader (st, [], flds) (c # s' @ d # tail)
                        = reader (IN_FIELD, [c], flds) (s' @ d # tail)"
    by (intro reader_step) (auto simp: start_field_def)
  with Cons reader_in_field [OF s, of "[c]" flds d tail] show ?thesis
    by simp
qed

lemma reader_in_quoted:
  "reader (IN_QUOTED_FIELD, fld, flds) (double_quotes s @ CHR ''\"'' # d # tail)
     = reader (QUOTE_IN_QUOTED_FIELD, fld @ s, flds) (d # tail)"
proof (induction s arbitrary: fld)
  case Nil
  show ?case
    by (simp add: reader_step)
next
  case (Cons c s)
  show ?case
  proof (cases "c = CHR ''\"''")
    case True
    have "reader (IN_QUOTED_FIELD, fld, flds)
            (CHR ''\"'' # CHR ''\"'' # double_quotes s @ CHR ''\"'' # d # tail)
          = reader (QUOTE_IN_QUOTED_FIELD, fld, flds)
              (CHR ''\"'' # double_quotes s @ CHR ''\"'' # d # tail)"
      by (intro reader_step) simp_all
    also have "\<dots> = reader (IN_QUOTED_FIELD, fld @ [CHR ''\"''], flds)
                       (double_quotes s @ CHR ''\"'' # d # tail)"
      by (intro reader_step) simp_all
    finally show ?thesis
      using True Cons.IH [of "fld @ [c]"] by simp
  next
    case False
    with Cons.IH [of "fld @ [c]"] show ?thesis
      by (simp add: reader_quoted_step)
  qed
qed

lemma reader_open_quote:
  assumes "st = START_RECORD \<or> st = START_FIELD"
  shows "reader (st, [], flds) (CHR ''\"'' # double_quotes f @ CHR ''\"'' # d # tail)
           = reader (QUOTE_IN_QUOTED_FIELD, f, flds) (d # tail)"
proof -
  from assms have "reader (st, [], flds) (CHR ''\"'' # double_quotes f @ CHR ''\"'' # d # tail)
          = reader (IN_QUOTED_FIELD, [], flds) (double_quotes f @ CHR ''\"'' # d # tail)"
    by (intro reader_step) (auto simp: start_field_def)
  then show ?thesis
    by (simp add: reader_in_quoted)
qed

lemma reader_field_comma:
  assumes "st = START_RECORD \<or> st = START_FIELD" and "tail \<noteq> []"
  shows "reader (st, [], flds) (csv_field f @ CHR '','' # tail)
           = reader (START_FIELD, [], flds @ [f]) tail"
proof -
  from assms(2) obtain e tl where tail: "tail = e # tl"
    by (cases tail) auto
  show ?thesis
  proof (cases "list_ex special f")
    case True
    with assms(1) tail show ?thesis
      by (simp add: csv_field_def reader_open_quote reader_comma)
  next
    case False
    show ?thesis
    proof (cases "f = []")
      case True
      with assms(1) tail show ?thesis
        by (auto simp: csv_field_def reader_comma)
    next
      case ne: False
      from False tail reader_start_plain [OF False ne assms(1), of flds "CHR '',''" tail]
      show ?thesis
        by (simp add: csv_field_def reader_comma)
    qed
  qed
qed

lemma reader_field_crlf:
  assumes "st = START_FIELD \<or> (st = START_RECORD \<and> f \<noteq> [])"
  shows "reader (st, [], flds) (csv_field f @ CR # LF # tail)
           = map_option (Cons (flds @ [f])) (reader (START_RECORD, [], []) tail)"
proof -
  have st: "st = START_RECORD \<or> st = START_FIELD"
    using assms by auto
  show ?thesis
  proof (cases "list_ex special f")
    case True
    with st show ?thesis
      by (simp add: csv_field_def reader_open_quote reader_end_of_record)
  next
    case False
    show ?thesis
    proof (cases "f = []")
      case True
      with assms show ?thesis
        by (simp add: csv_field_def reader_end_of_record)
    next
      case ne: False
      from reader_start_plain [OF False ne st, of flds CR "LF # tail"] False show ?thesis
        by (simp add: csv_field_def reader_end_of_record)
    qed
  qed
qed

lemma reader_fields:
  "reader (START_FIELD, [], flds) (join_fields (map csv_field (f # fs)) @ CR # LF # tail)
     = map_option (Cons (flds @ f # fs)) (reader (START_RECORD, [], []) tail)"
proof (induction fs arbitrary: f flds)
  case Nil
  show ?case by (simp add: reader_field_crlf)
next
  case (Cons g fs)
  from Cons.IH [of "flds @ [f]" g] show ?case
    by (simp add: reader_field_comma)
qed

lemma reader_empty_record:
  "reader (START_RECORD, [], []) (CR # LF # tail)
     = map_option (Cons []) (reader (START_RECORD, [], []) tail)"
  by (simp add: reader.simps(2))

lemma reader_quoted_empty_record:
  "reader (START_RECORD, [], []) (CHR ''\"'' # CHR ''\"'' # CR # LF # tail)
     = map_option (Cons [[]]) (reader (START_RECORD, [], []) tail)"
  using reader_open_quote [of START_RECORD "[]" "[]" CR "LF # tail"]
  by (simp add: reader_end_of_record)

lemma reader_record:
  "reader (START_RECORD, [], []) (csv_writerow r @ tail)
     = map_option (Cons r) (reader (START_RECORD, [], []) tail)"
proof (cases r)
  case Nil
  then show ?thesis
    by (simp add: csv_writerow_def reader_empty_record)
next
  case (Cons f fs)
  show ?thesis
  proof (cases fs)
    case Nil
    show ?thesis
    proof (cases "f = []")
      case True
      with Nil Cons show ?thesis
        by (simp add: csv_writerow_def reader_quoted_empty_record)
    next
      case False
      with Nil Cons show ?thesis
        by (simp add: csv_writerow_def reader_field_crlf)
    qed
  next
    case (Cons g gs)
    with \<open>r = f # fs\<close> reader_fields [of "[f]" g gs tail] show ?thesis
      by (simp add: csv_writerow_def reader_field_comma)
  qed
qed

lemma csv_reader_writerows:
  "csv_reader (concat (map csv_writerow rs)) = Some rs"
  unfolding csv_reader_def
  by (induction rs) (simp_all add: reader_record)

text \<open>
  Claim C5. Reading back the text that the writer produces for a sequence of rows yields
  the header and then the rows, field for field; so does reading back the file that a
  successful \<^verbatim>\<open>save_to_csv\<close> leaves.
\<close>

theorem csv_round_trip:
  "csv_reader (csv_text mapping) = Some (fieldnames # map dict_to_list mapping)
   \<and> (csv_io ev output_file = IoOk \<longrightarrow>
        (\<exists>text. fst (save_to_csv ev mapping output_file fs) output_file = Some text
           \<and> csv_reader text = Some (fieldnames # map dict_to_list mapping)))"
proof -
  have "csv_reader (csv_text mapping) = Some (fieldnames # map dict_to_list mapping)"
    using csv_reader_writerows [of "fieldnames # map dict_to_list mapping"]
    by (simp add: csv_text_def comp_def)
  then show ?thesis
    by (simp add: save_to_csv_def)
qed

theorem csv_round_trip_witness:
  "\<exists>text. fst (save_to_csv example_env example_rows ''pdb_cdb_mapping.csv'' Map.empty)
             ''pdb_cdb_mapping.csv'' = Some text
      \<and> csv_reader text =
          Some [[''PDB_Name'', ''CDB_Name'', ''Oracle_Home'', ''Compartment_Name'', ''CDB_ID'',
                 ''Compartment_ID''],
                [''P1'', ''C1'', ''HOME1'', ''Prod'', ''cdb1'', ''ocid1.c''],
                [''P,2'', ''Unknown CDB'', ''Unknown Oracle Home'', ''Prod'', [], ''ocid1.c'']]"
proof -
  have ok: "csv_io example_env ''pdb_cdb_mapping.csv'' = IoOk"
    by (simp add: example_env_def)
  from ok
    csv_round_trip
      [where mapping = example_rows and ev = example_env
         and output_file = "''pdb_cdb_mapping.csv''" and fs = Map.empty]
  show ?thesis
    by (simp add: example_rows_def fieldnames_def dict_to_list_def)
qed

section \<open>The number of rows\<close>

lemma csv_text_layout:
  "csv_text mapping =
     ''PDB_Name,CDB_Name,Oracle_Home,Compartment_Name,CDB_ID,Compartment_ID'' @ [CR, LF]
     @ concat (map (\<lambda>r. join_fields
                          (map csv_field
                             [PDB_Name r, CDB_Name r, Oracle_Home r, Compartment_Name r,
                              CDB_ID r, Compartment_ID r])
                        @ [CR, LF]) mapping)"
  by (simp only: csv_text_def csv_writerow_fieldnames csv_writerow_row append_assoc)

lemma csv_reader_csv_text:
  "csv_reader (csv_text mapping) = Some (fieldnames # map dict_to_list mapping)"
  using csv_reader_writerows [of "fieldnames # map dict_to_list mapping"]
  by (simp add: csv_text_def comp_def)

text \<open>
  Claim C1, as the program has it. Let the PDB fetch return a list of \<open>N\<close> PDBs. When
  \<open>N = 0\<close>, \<^verbatim>\<open>main\<close> prints its abort message and returns with the files as they were. When
  \<open>N > 0\<close>, the join yields one row per PDB, in the order of the PDBs, from the tables that
  the later fetches returned. Then the write decides the file: when the file system
  accepts it, \<^verbatim>\<open>pdb_cdb_mapping.csv\<close> holds the header record and one record per row, so that
  reading it back gives the header and \<open>N\<close> data rows; when the write raises, the failure
  is caught and the file is what the failed write left, possibly none. Nothing is said
  of a run in which a later fetch raises.
\<close>

theorem main_row_count:
  assumes "get_pdb_list ev profile compartment_id = (out1, Inr (PyList pdbs))"
  shows "(pdbs = [] \<longrightarrow>
            main ev profile compartment_id fs =
              (fs, (''Starting extraction...'' # out1
                      @ [''No PDB data found. Check OCI CLI command and permissions.''],
                    Inr ())))
       \<and> (pdbs \<noteq> [] \<longrightarrow>
            (\<forall>cdb_mapping db_home_mapping compartment_name.
               extract_pdb_cdb_mapping (PyList pdbs) cdb_mapping db_home_mapping
                 compartment_id compartment_name
               = Inr (map (pdb_row cdb_mapping db_home_mapping compartment_id compartment_name)
                        pdbs))
          \<and> (\<forall>out2 rows.
                 fetch_and_join ev profile compartment_id (PyList pdbs) = (out2, Inr rows)
                 \<longrightarrow> length rows = length pdbs
                    \<and> (\<exists>o1 cdb_mapping o2 db_home_mapping o3 compartment_name.
                          get_cdb_mapping ev profile compartment_id = (o1, Inr cdb_mapping)
                        \<and> get_db_home_mapping ev profile compartment_id
                            = (o2, Inr db_home_mapping)
                        \<and> get_compartment_name ev profile compartment_id
                            = (o3, Inr compartment_name)
                        \<and> rows = map (pdb_row cdb_mapping db_home_mapping compartment_id
                                        compartment_name) pdbs)
                    \<and> (csv_io ev ''pdb_cdb_mapping.csv'' = IoOk
                       \<longrightarrow> (\<exists>text.
                              fst (main ev profile compartment_id fs) ''pdb_cdb_mapping.csv''
                                = Some text
                            \<and> text =
                                ''PDB_Name,CDB_Name,Oracle_Home,Compartment_Name,CDB_ID,Compartment_ID''
                                @ [CR, LF]
                                @ concat (map (\<lambda>r. join_fields
                                                     (map csv_field
                                                        [PDB_Name r, CDB_Name r, Oracle_Home r,
                                                         Compartment_Name r, CDB_ID r,
                                                         Compartment_ID r])
                                                   @ [CR, LF]) rows)
                            \<and> csv_reader text = Some (fieldnames # map dict_to_list rows)
                            \<and> map_option length (csv_reader text) = Some (Suc (length pdbs))))
                    \<and> (\<forall>e left. csv_io ev ''pdb_cdb_mapping.csv'' = IoError e left
                          \<longrightarrow> fst (main ev profile compartment_id fs) ''pdb_cdb_mapping.csv''
                                = left)))"
proof (intro conjI impI allI)
  assume "pdbs = []"
  then show "main ev profile compartment_id fs =
               (fs, (''Starting extraction...'' # out1
                       @ [''No PDB data found. Check OCI CLI command and permissions.''],
                     Inr ()))"
    using main_abort [OF assms] by simp
next
  fix cdb_mapping db_home_mapping compartment_name
  show "extract_pdb_cdb_mapping (PyList pdbs) cdb_mapping db_home_mapping
          compartment_id compartment_name
        = Inr (map (pdb_row cdb_mapping db_home_mapping compartment_id compartment_name) pdbs)"
    by (rule extract_list)
next
  fix out2 rows
  assume fj: "fetch_and_join ev profile compartment_id (PyList pdbs) = (out2, Inr rows)"
  from fetch_and_join_Inr [OF fj] show "length rows = length pdbs"
    by (auto simp: extract_list)
next
  fix out2 rows
  assume fj: "fetch_and_join ev profile compartment_id (PyList pdbs) = (out2, Inr rows)"
  from fetch_and_join_Inr [OF fj]
  show "\<exists>o1 cdb_mapping o2 db_home_mapping o3 compartment_name.
          get_cdb_mapping ev profile compartment_id = (o1, Inr cdb_mapping)
        \<and> get_db_home_mapping ev profile compartment_id = (o2, Inr db_home_mapping)
        \<and> get_compartment_name ev profile compartment_id = (o3, Inr compartment_name)
        \<and> rows = map (pdb_row cdb_mapping db_home_mapping compartment_id compartment_name)
                    pdbs"
    by (auto simp: extract_list)
next
  fix out2 rows
  assume ne: "pdbs \<noteq> []"
    and fj: "fetch_and_join ev profile compartment_id (PyList pdbs) = (out2, Inr rows)"
    and ok: "csv_io ev ''pdb_cdb_mapping.csv'' = IoOk"
  from ne have t: "truthy (PyList pdbs)"
    by simp
  from fetch_and_join_Inr [OF fj] have n: "length rows = length pdbs"
    by (auto simp: extract_list)
  from ok have wr: "fst (main ev profile compartment_id fs) ''pdb_cdb_mapping.csv''
                        = Some (csv_text rows)"
    by (simp add: main_write [OF assms t fj] save_to_csv_def)
  have count: "map_option length (csv_reader (csv_text rows)) = Some (Suc (length pdbs))"
    by (simp add: csv_reader_csv_text n)
  from wr count csv_text_layout [of rows] csv_reader_csv_text [of rows]
  show "\<exists>text.
          fst (main ev profile compartment_id fs) ''pdb_cdb_mapping.csv'' = Some text
        \<and> text =
            ''PDB_Name,CDB_Name,Oracle_Home,Compartment_Name,CDB_ID,Compartment_ID''
            @ [CR, LF]
            @ concat (map (\<lambda>r. join_fields
                                 (map csv_field
                                    [PDB_Name r, CDB_Name r, Oracle_Home r,
                                     Compartment_Name r, CDB_ID r, Compartment_ID r])
                               @ [CR, LF]) rows)
        \<and> csv_reader text = Some (fieldnames # map dict_to_list rows)
        \<and> map_option length (csv_reader text) = Some (Suc (length pdbs))"
    by (intro exI [of _ "csv_text rows"]) simp
next
  fix out2 rows e left
  assume ne: "pdbs \<noteq> []"
    and fj: "fetch_and_join ev profile compartment_id (PyList pdbs) = (out2, Inr rows)"
    and err: "csv_io ev ''pdb_cdb_mapping.csv'' = IoError e left"
  from ne have t: "truthy (PyList pdbs)"
    by simp
  from err show "fst (main ev profile compartment_id fs) ''pdb_cdb_mapping.csv'' = left"
    by (simp add: main_write [OF assms t fj] save_to_csv_def)
qed

theorem main_row_count_witness:
  "main example_env ''OTHER'' ''ocid1.c'' Map.empty =
     (Map.empty,
      ([''Starting extraction...'', ''Fetching PDBs...'', ''Error executing OCI CLI: ServiceError'',
        ''No PDB data found. Check OCI CLI command and permissions.''], Inr ()))
   \<and> length example_pdbs = 3
   \<and> (\<exists>text. fst (main example_env ''DEFAULT'' ''ocid1.c'' Map.empty) ''pdb_cdb_mapping.csv''
                = Some text
         \<and> text =
             ''PDB_Name,CDB_Name,Oracle_Home,Compartment_Name,CDB_ID,Compartment_ID'' @ [CR, LF]
             @ ''P1,C1,HOME1,Prod,cdb1,ocid1.c'' @ [CR, LF]
             @ ''P2,Unknown CDB,Unknown Oracle Home,Prod,cdb9,ocid1.c'' @ [CR, LF]
             @ ''Unknown PDB,C2,Unknown Oracle Home,Prod,cdb2,ocid1.c'' @ [CR, LF]
         \<and> csv_reader text =
             Some [[''PDB_Name'', ''CDB_Name'', ''Oracle_Home'', ''Compartment_Name'', ''CDB_ID'',
                    ''Compartment_ID''],
                   [''P1'', ''C1'', ''HOME1'', ''Prod'', ''cdb1'', ''ocid1.c''],
                   [''P2'', ''Unknown CDB'', ''Unknown Oracle Home'', ''Prod'', ''cdb9'',
                    ''ocid1.c''],
                   [''Unknown PDB'', ''C2'', ''Unknown Oracle Home'', ''Prod'', ''cdb2'',
                    ''ocid1.c'']]
         \<and> map_option length (csv_reader text) = Some 4)
   \<and> fst (main readonly_env ''DEFAULT'' ''ocid1.c'' Map.empty) ''pdb_cdb_mapping.csv'' = None"
proof -
  have ok: "csv_io example_env ''pdb_cdb_mapping.csv'' = IoOk"
    by (simp add: example_env_def)
  have ne: "example_pdbs \<noteq> []"
    by (simp add: example_pdbs_def)
  have n: "length example_pdbs = 3"
    by (simp add: example_pdbs_def)
  have rows: "map (pdb_row example_cdb_mapping example_home_mapping ''ocid1.c'' ''Prod'')
                example_pdbs
              = [\<lparr>PDB_Name = ''P1'', CDB_Name = ''C1'', Oracle_Home = ''HOME1'',
                  Compartment_Name = ''Prod'', CDB_ID = ''cdb1'', Compartment_ID = ''ocid1.c''\<rparr>,
                 \<lparr>PDB_Name = ''P2'', CDB_Name = ''Unknown CDB'',
                  Oracle_Home = ''Unknown Oracle Home'', Compartment_Name = ''Prod'',
                  CDB_ID = ''cdb9'', Compartment_ID = ''ocid1.c''\<rparr>,
                 \<lparr>PDB_Name = ''Unknown PDB'', CDB_Name = ''C2'',
                  Oracle_Home = ''Unknown Oracle Home'', Compartment_Name = ''Prod'',
                  CDB_ID = ''cdb2'', Compartment_ID = ''ocid1.c''\<rparr>]"
    by (simp add: example_pdbs_def example_cdb_mapping_def example_home_mapping_def
          pdb_row_def dict_get_def dict_get_opt_def)
  have fj: "fetch_and_join example_env ''DEFAULT'' ''ocid1.c'' (PyList example_pdbs)
              = ([''Fetching CDBs...'', ''Fetching DB Homes...'',
                  ''Fetching Compartment Name...''],
                 Inr (map (pdb_row example_cdb_mapping example_home_mapping ''ocid1.c''
                             ''Prod'') example_pdbs))"
    by (rule example_fetch_and_join)
  have p: "get_pdb_list readonly_env ''DEFAULT'' ''ocid1.c''
             = ([''Fetching PDBs...''], Inr (PyList example_pdbs))"
    by (simp add: readonly_env_def get_pdb_list_csv_io example_get_pdb_list)
  have fr: "fetch_and_join readonly_env ''DEFAULT'' ''ocid1.c'' (PyList example_pdbs)
              = ([''Fetching CDBs...'', ''Fetching DB Homes...'',
                  ''Fetching Compartment Name...''],
                 Inr (map (pdb_row example_cdb_mapping example_home_mapping ''ocid1.c''
                             ''Prod'') example_pdbs))"
    by (simp add: readonly_env_def fetch_and_join_csv_io example_fetch_and_join)
  have err: "csv_io readonly_env ''pdb_cdb_mapping.csv''
               = IoError (Exc OSError ''Permission denied'') None"
    by (simp add: readonly_env_def)
  from main_row_count [OF example_refused, of Map.empty]
  have a: "main example_env ''OTHER'' ''ocid1.c'' Map.empty =
             (Map.empty,
              ([''Starting extraction...'', ''Fetching PDBs...'',
                ''Error executing OCI CLI: ServiceError'',
                ''No PDB data found. Check OCI CLI command and permissions.''], Inr ()))"
    by simp
  from main_row_count [OF example_get_pdb_list, of Map.empty] ne ok fj
  obtain content where
    b: "fst (main example_env ''DEFAULT'' ''ocid1.c'' Map.empty) ''pdb_cdb_mapping.csv''
          = Some content"
    and c: "content =
              ''PDB_Name,CDB_Name,Oracle_Home,Compartment_Name,CDB_ID,Compartment_ID''
              @ [CR, LF]
              @ concat (map (\<lambda>r. join_fields
                                   (map csv_field
                                      [PDB_Name r, CDB_Name r, Oracle_Home r,
                                       Compartment_Name r, CDB_ID r, Compartment_ID r])
                                 @ [CR, LF])
                          (map (pdb_row example_cdb_mapping example_home_mapping ''ocid1.c''
                                  ''Prod'') example_pdbs))"
    and d: "csv_reader content =
              Some (fieldnames
                    # map dict_to_list
                        (map (pdb_row example_cdb_mapping example_home_mapping ''ocid1.c''
                                ''Prod'') example_pdbs))"
    and e: "map_option length (csv_reader content) = Some (Suc (length example_pdbs))"
    by blast
  from main_row_count [OF p, of Map.empty] ne fr err
  have f: "fst (main readonly_env ''DEFAULT'' ''ocid1.c'' Map.empty) ''pdb_cdb_mapping.csv''
             = None"
    by blast
  from c have c2: "content =
             ''PDB_Name,CDB_Name,Oracle_Home,Compartment_Name,CDB_ID,Compartment_ID'' @ [CR, LF]
             @ ''P1,C1,HOME1,Prod,cdb1,ocid1.c'' @ [CR, LF]
             @ ''P2,Unknown CDB,Unknown Oracle Home,Prod,cdb9,ocid1.c'' @ [CR, LF]
             @ ''Unknown PDB,C2,Unknown Oracle Home,Prod,cdb2,ocid1.c'' @ [CR, LF]"
    unfolding rows by (simp add: csv_field_def special_def CR_def LF_def)
  from d have d2: "csv_reader content =
             Some [[''PDB_Name'', ''CDB_Name'', ''Oracle_Home'', ''Compartment_Name'', ''CDB_ID'',
                    ''Compartment_ID''],
                   [''P1'', ''C1'', ''HOME1'', ''Prod'', ''cdb1'', ''ocid1.c''],
                   [''P2'', ''Unknown CDB'', ''Unknown Oracle Home'', ''Prod'', ''cdb9'',
                    ''ocid1.c''],
                   [''Unknown PDB'', ''C2'', ''Unknown Oracle Home'', ''Prod'', ''cdb2'',
                    ''ocid1.c'']]"
    unfolding rows by (simp add: fieldnames_def dict_to_list_def)
  from e n have e2: "map_option length (csv_reader content) = Some 4"
    by simp
  from a n b c2 d2 e2 f show ?thesis
    by blast
qed

text \<open>
  Claim C1 without the condition on the write. A run with three PDBs whose later fetches
  all return, on a file system that refuses the write: \<^verbatim>\<open>main\<close> returns with exit status 0 and there is no file, so three PDBs do not
  always give a file of three data rows.
\<close>

theorem main_row_count_fails_without_write:
  "get_pdb_list readonly_env ''DEFAULT'' ''ocid1.c''
     = ([''Fetching PDBs...''], Inr (PyList example_pdbs))
   \<and> length example_pdbs = 3
   \<and> fst (main readonly_env ''DEFAULT'' ''ocid1.c'' Map.empty) ''pdb_cdb_mapping.csv'' = None
   \<and> exit_status (snd (snd (main readonly_env ''DEFAULT'' ''ocid1.c'' Map.empty))) = 0"
proof -
  have p: "get_pdb_list readonly_env ''DEFAULT'' ''ocid1.c''
             = ([''Fetching PDBs...''], Inr (PyList example_pdbs))"
    by (simp add: readonly_env_def get_pdb_list_csv_io example_get_pdb_list)
  have n: "length example_pdbs = 3"
    by (simp add: example_pdbs_def)
  have t: "truthy (PyList example_pdbs)"
    by (simp add: example_pdbs_def)
  have fr: "fetch_and_join readonly_env ''DEFAULT'' ''ocid1.c'' (PyList example_pdbs)
              = ([''Fetching CDBs...'', ''Fetching DB Homes...'',
                  ''Fetching Compartment Name...''],
                 Inr (map (pdb_row example_cdb_mapping example_home_mapping ''ocid1.c''
                             ''Prod'') example_pdbs))"
    by (simp add: readonly_env_def fetch_and_join_csv_io example_fetch_and_join)
  have err: "csv_io readonly_env ''pdb_cdb_mapping.csv''
               = IoError (Exc OSError ''Permission denied'') None"
    by (simp add: readonly_env_def)
  from err have "fst (main readonly_env ''DEFAULT'' ''ocid1.c'' Map.empty)
                   ''pdb_cdb_mapping.csv'' = None"
    and "exit_status (snd (snd (main readonly_env ''DEFAULT'' ''ocid1.c'' Map.empty))) = 0"
    by (simp_all add: main_write [OF p t fr] save_to_csv_def)
  with p n show ?thesis
    by simp
qed

end
